theory Spec2Isabelle
  imports Main "HOL-Library.Monad_Syntax" "HOL-Library.AList"
begin

section \<open>Python values\<close>

text \<open>
  A Python \<open>str\<close> is a sequence of code points. It is modelled as a \<open>string\<close> whose
  characters stand for the code points below 256, so the degree sign U+00B0 of the unit
  labels is the single character \<open>CHR 0xB0\<close>.

  The values that \<open>response.json()\<close> produces are the JSON values. A \<open>dict\<close> is an
  association list read with \<open>map_of\<close>; it keeps the insertion order that the formatter's
  output has. Floats are kept abstract (type \<open>'f\<close>): the code compares them with
  integers, prints them and hands them on, and these operations are parameters.
\<close>

datatype 'f json =
    JNull
  | JBool bool
  | JInt int
  | JFloat 'f
  | JStr string
  | JList "'f json list"
  | JObj "(string \<times> 'f json) list"

text \<open>
  The exceptions of \<open>exceptions.py\<close>, pydantic's \<open>ValidationError\<close> and the built-in
  exceptions the code can raise. \<open>APIError\<close> and \<open>RateLimitExceededError\<close> carry
  \<open>status_code\<close> and \<open>message\<close>; \<open>InvalidAPIKeyError\<close> carries its message (its status
  code is the constant 401); \<open>LocationNotFoundError\<close> and \<open>ConfigurationError\<close> carry their
  only argument. \<open>ValidationError\<close> carries the rejected input, \<open>TypeError\<close> the class
  whose \<open>__init__\<close> was called with the number of positional arguments it takes and the
  number it was given, \<open>ValueError\<close> the literal \<open>int()\<close> rejected, \<open>AttributeError\<close> and
  \<open>KeyError\<close> the missing name.
\<close>

datatype 'f exc =
    APIError "'f json" "'f json"
  | InvalidAPIKeyError "'f json"
  | LocationNotFoundError string
  | RateLimitExceededError "'f json" "'f json"
  | ConfigurationError string
  | ValidationError "(string \<times> 'f json) list"
  | TypeError string nat nat
  | ValueError string
  | AttributeError string
  | IndexError
  | KeyError string
  | OverflowError
  | OSError string

text \<open>\<open>isinstance(e, exceptions.WeatherAppError)\<close>, by the class hierarchy.\<close>

fun is_WeatherAppError :: "'f exc \<Rightarrow> bool" where
  "is_WeatherAppError (APIError _ _) = True"
| "is_WeatherAppError (InvalidAPIKeyError _) = True"
| "is_WeatherAppError (LocationNotFoundError _) = True"
| "is_WeatherAppError (RateLimitExceededError _ _) = True"
| "is_WeatherAppError (ConfigurationError _) = True"
| "is_WeatherAppError _ = False"

text \<open>\<open>isinstance(e, exceptions.APIError)\<close>: \<open>APIError\<close> and its two subclasses.\<close>

fun is_APIError :: "'f exc \<Rightarrow> bool" where
  "is_APIError (APIError _ _) = True"
| "is_APIError (InvalidAPIKeyError _) = True"
| "is_APIError (RateLimitExceededError _ _) = True"
| "is_APIError _ = False"

fun is_InvalidAPIKeyError :: "'f exc \<Rightarrow> bool" where
  "is_InvalidAPIKeyError (InvalidAPIKeyError _) = True"
| "is_InvalidAPIKeyError _ = False"

text \<open>
  What the interpreter and the libraries supply: float comparison and printing, the
  \<open>repr\<close> of containers, the text \<open>str(e)\<close> of an exception that is not the
  application's, pydantic's conversion of a value to \<open>int\<close>, \<open>float\<close> and \<open>str\<close>
  (\<open>None\<close> when the value is rejected), the limit on the digits \<open>int()\<close> accepts
  (0: no limit), \<open>datetime.fromtimestamp(t).isoformat()\<close> (which raises outside the
  platform's range), \<open>datetime.now().isoformat()\<close>, \<open>json.dumps\<close> with
  \<open>ensure_ascii=False\<close> (the flag: \<open>indent=2\<close>) and writing a file (\<open>None\<close>: written).
\<close>

record 'f py_env =
  float_eq_int :: "'f \<Rightarrow> int \<Rightarrow> bool"
  float_str :: "'f \<Rightarrow> string"
  container_repr :: "'f json \<Rightarrow> string"
  builtin_str :: "'f exc \<Rightarrow> string"
  as_int :: "'f json \<Rightarrow> int option"
  as_float :: "'f json \<Rightarrow> 'f option"
  as_str :: "'f json \<Rightarrow> string option"
  int_max_str_digits :: nat
  fromtimestamp_isoformat :: "int \<Rightarrow> 'f exc + string"
  now_isoformat :: string
  json_dumps :: "bool \<Rightarrow> 'f json \<Rightarrow> string"
  open_write :: "string \<Rightarrow> string \<Rightarrow> 'f exc option"

subsection \<open>Strings and integers\<close>

text \<open>
  Python's integers are unbounded: they are \<open>int\<close>, also where they cannot be negative.
\<close>

definition digit_char :: "int \<Rightarrow> char" where
  "digit_char d = char_of (48 + d)"

text \<open>The decimal digits of a number that is not negative.\<close>

function str_digits :: "int \<Rightarrow> string" where
  "str_digits n =
     (if n < 10 then [digit_char n] else str_digits (n div 10) @ [digit_char (n mod 10)])"
  by pat_completeness auto
termination
  by (relation "measure nat") auto

declare str_digits.simps [simp del]

text \<open>\<open>str(n)\<close> of an \<open>int\<close>.\<close>

definition str_int :: "int \<Rightarrow> string" where
  "str_int i = (if i < 0 then CHR ''-'' # str_digits (- i) else str_digits i)"

text \<open>\<open>str.isspace\<close> on the code points below 256.\<close>

definition is_space :: "char \<Rightarrow> bool" where
  "is_space c = (let n = (of_char c :: nat) in
     (9 \<le> n \<and> n \<le> 13) \<or> (28 \<le> n \<and> n \<le> 32) \<or> n = 133 \<or> n = 160)"

definition strip_by :: "(char \<Rightarrow> bool) \<Rightarrow> string \<Rightarrow> string" where
  "strip_by f s = rev (dropWhile f (rev (dropWhile f s)))"

text \<open>\<open>s.strip()\<close>.\<close>

definition strip :: "string \<Rightarrow> string" where
  "strip s = strip_by is_space s"

text \<open>
  The whitespace that \<open>int()\<close> skips around a literal: of the code points below 128
  the C whitespace only, which leaves out the separators 28 to 31.
\<close>

definition is_int_space :: "char \<Rightarrow> bool" where
  "is_int_space c = (let n = (of_char c :: nat) in
     (9 \<le> n \<and> n \<le> 13) \<or> n = 32 \<or> n = 133 \<or> n = 160)"

text \<open>\<open>s.split(c)\<close> with a one-character separator: the result is never empty.\<close>

fun split :: "char \<Rightarrow> string \<Rightarrow> string list" where
  "split c [] = [[]]"
| "split c (x # xs) =
     (if x = c then [] # split c xs
      else (case split c xs of [] \<Rightarrow> [[x]] | p # ps \<Rightarrow> (x # p) # ps))"

definition is_digit :: "char \<Rightarrow> bool" where
  "is_digit c = (let n = (of_char c :: nat) in 48 \<le> n \<and> n \<le> 57)"

definition digit_val :: "char \<Rightarrow> int" where
  "digit_val c = of_char c - 48"

text \<open>
  The digits of an integer literal after its first digit: an underscore is accepted
  between two digits only.
\<close>

fun int_digits :: "int \<Rightarrow> string \<Rightarrow> int option" where
  "int_digits acc [] = Some acc"
| "int_digits acc [c] = (if is_digit c then Some (10 * acc + digit_val c) else None)"
| "int_digits acc (c # d # cs) =
     (if is_digit c then int_digits (10 * acc + digit_val c) (d # cs)
      else if c = CHR ''_'' \<and> is_digit d then int_digits acc (d # cs)
      else None)"

definition int_body :: "string \<Rightarrow> int option" where
  "int_body s = (case s of [] \<Rightarrow> None
     | c # cs \<Rightarrow> if is_digit c then int_digits (digit_val c) cs else None)"

text \<open>
  \<open>int(s)\<close> of a \<open>str\<close>, base 10: surrounding whitespace, an optional sign, digits.
  \<open>None\<close> is \<open>ValueError\<close>, which is also raised when the literal has more digits than
  the interpreter's limit.
\<close>

definition int_of_str :: "nat \<Rightarrow> string \<Rightarrow> int option" where
  "int_of_str limit s =
     (let t = strip_by is_int_space s;
          (neg, body) = (case t of
              c # cs \<Rightarrow> if c = CHR ''-'' then (True, cs)
                        else if c = CHR ''+'' then (False, cs) else (False, t)
            | [] \<Rightarrow> (False, t))
      in if 0 < limit \<and> limit < length (filter is_digit body) then None
         else (case int_body body of
                 None \<Rightarrow> None
               | Some n \<Rightarrow> Some (if neg then - n else n)))"

text \<open>\<open>str(v)\<close>, which is what an f-string puts in for \<open>{v}\<close>.\<close>

definition py_str :: "'f py_env \<Rightarrow> 'f json \<Rightarrow> string" where
  "py_str env v = (case v of
       JNull \<Rightarrow> ''None''
     | JBool b \<Rightarrow> (if b then ''True'' else ''False'')
     | JInt i \<Rightarrow> str_int i
     | JFloat x \<Rightarrow> float_str env x
     | JStr s \<Rightarrow> s
     | JList _ \<Rightarrow> container_repr env v
     | JObj _ \<Rightarrow> container_repr env v)"

text \<open>\<open>v == k\<close> for an integer constant \<open>k\<close>; \<open>bool\<close> is a subclass of \<open>int\<close>.\<close>

definition py_eq_int :: "'f py_env \<Rightarrow> 'f json \<Rightarrow> int \<Rightarrow> bool" where
  "py_eq_int env v k = (case v of
       JInt i \<Rightarrow> i = k
     | JBool b \<Rightarrow> (if b then 1 else 0) = k
     | JFloat x \<Rightarrow> float_eq_int env x k
     | _ \<Rightarrow> False)"

text \<open>\<open>d.get(key, default)\<close>.\<close>

definition dict_get :: "(string \<times> 'f json) list \<Rightarrow> string \<Rightarrow> 'f json \<Rightarrow> 'f json" where
  "dict_get d k dflt = (case map_of d k of None \<Rightarrow> dflt | Some v \<Rightarrow> v)"

section \<open>exceptions.py\<close>

text \<open>
  Calling an exception class with positional arguments. \<open>APIError.__init__\<close> takes
  \<open>status_code\<close> and \<open>message\<close>, and \<open>RateLimitExceededError\<close> inherits it;
  \<open>InvalidAPIKeyError.__init__\<close> takes \<open>message\<close> only. A call with another number of
  arguments raises \<open>TypeError\<close> instead of building the exception.
\<close>

definition new_APIError :: "'f json list \<Rightarrow> 'f exc" where
  "new_APIError args = (case args of
       [status_code, message] \<Rightarrow> APIError status_code message
     | _ \<Rightarrow> TypeError ''APIError'' 2 (length args))"

definition new_InvalidAPIKeyError :: "'f json list \<Rightarrow> 'f exc" where
  "new_InvalidAPIKeyError args = (case args of
       [message] \<Rightarrow> InvalidAPIKeyError message
     | _ \<Rightarrow> TypeError ''InvalidAPIKeyError'' 1 (length args))"

definition new_RateLimitExceededError :: "'f json list \<Rightarrow> 'f exc" where
  "new_RateLimitExceededError args = (case args of
       [status_code, message] \<Rightarrow> RateLimitExceededError status_code message
     | _ \<Rightarrow> TypeError ''RateLimitExceededError'' 2 (length args))"

text \<open>
  \<open>str(e)\<close>: \<open>APIError.__init__\<close> passes \<open>f"API Error {status_code}: {message}"\<close> to
  \<open>Exception\<close>; the classes without \<open>__init__\<close> print their argument.
\<close>

definition exc_str :: "'f py_env \<Rightarrow> 'f exc \<Rightarrow> string" where
  "exc_str env e = (case e of
       APIError status_code message \<Rightarrow>
         ''API Error '' @ py_str env status_code @ '': '' @ py_str env message
     | InvalidAPIKeyError message \<Rightarrow>
         ''API Error '' @ py_str env (JInt 401) @ '': '' @ py_str env message
     | RateLimitExceededError status_code message \<Rightarrow>
         ''API Error '' @ py_str env status_code @ '': '' @ py_str env message
     | LocationNotFoundError s \<Rightarrow> s
     | ConfigurationError s \<Rightarrow> s
     | _ \<Rightarrow> builtin_str env e)"

section \<open>weather.py: the response model\<close>

record WeatherCondition =
  wc_id :: int
  wc_main :: string
  description :: string
  icon :: string

record 'f MainWeatherData =
  temp :: 'f
  feels_like :: 'f
  temp_min :: 'f
  temp_max :: 'f
  pressure :: int
  humidity :: int
  sea_level :: "int option"
  grnd_level :: "int option"

record 'f WindData =
  speed :: 'f
  deg :: int
  gust :: "'f option"

record CloudData =
  clouds_all :: int

record SystemData =
  sys_type :: "int option"
  sys_id :: "int option"
  sys_country :: string
  sunrise :: int
  sunset :: int

text \<open>
  \<open>WeatherResponse\<close> declares thirteen fields, all required. \<open>pydantic_extra\<close> is where a
  pydantic model keeps the attributes that are not declared fields: it is \<open>None\<close> for a
  model that does not allow extra fields, and then reading any other attribute raises
  \<open>AttributeError\<close>.
\<close>

record 'f WeatherResponse =
  coord :: "(string \<times> 'f) list"
  weather :: "WeatherCondition list"
  base :: string
  main :: "'f MainWeatherData"
  visibility :: int
  wind :: "'f WindData"
  clouds :: CloudData
  dt :: int
  sys :: SystemData
  timezone :: int
  loc_id :: int
  name :: string
  cod :: int
  pydantic_extra :: "(string \<times> 'f json) list option"

text \<open>
  Validation of one field of a model from the input \<open>dict\<close>. A field without default is
  required: a missing key is an error. A field declared \<open>Optional[T] = None\<close> is \<open>None\<close>
  when the key is missing or holds \<open>None\<close>, and is validated as \<open>T\<close> otherwise. The
  result \<open>None\<close> of a validator is a validation error.
\<close>

definition required :: "('f json \<Rightarrow> 'a option) \<Rightarrow> (string \<times> 'f json) list \<Rightarrow> string \<Rightarrow> 'a option" where
  "required f d k = (case map_of d k of None \<Rightarrow> None | Some v \<Rightarrow> f v)"

definition optional :: "('f json \<Rightarrow> 'a option) \<Rightarrow> (string \<times> 'f json) list \<Rightarrow> string \<Rightarrow> 'a option option" where
  "optional f d k = (case map_of d k of
       None \<Rightarrow> Some None
     | Some JNull \<Rightarrow> Some None
     | Some v \<Rightarrow> map_option Some (f v))"

text \<open>A field whose type is a model takes a \<open>dict\<close>; one whose type is a list takes a list.\<close>

definition as_model :: "((string \<times> 'f json) list \<Rightarrow> 'a option) \<Rightarrow> 'f json \<Rightarrow> 'a option" where
  "as_model f v = (case v of JObj d \<Rightarrow> f d | _ \<Rightarrow> None)"

definition as_list :: "('f json \<Rightarrow> 'a option) \<Rightarrow> 'f json \<Rightarrow> 'a list option" where
  "as_list f v = (case v of JList vs \<Rightarrow> those (map f vs) | _ \<Rightarrow> None)"

text \<open>\<open>Dict[str, float]\<close>: the keys of a JSON object are strings already.\<close>

definition as_float_dict :: "'f py_env \<Rightarrow> 'f json \<Rightarrow> (string \<times> 'f) list option" where
  "as_float_dict env v = (case v of
       JObj d \<Rightarrow> those (map (\<lambda>(k, x). map_option (Pair k) (as_float env x)) d)
     | _ \<Rightarrow> None)"

definition validate_WeatherCondition :: "'f py_env \<Rightarrow> (string \<times> 'f json) list \<Rightarrow> WeatherCondition option" where
  "validate_WeatherCondition env d = do {
     i \<leftarrow> required (as_int env) d ''id'';
     m \<leftarrow> required (as_str env) d ''main'';
     ds \<leftarrow> required (as_str env) d ''description'';
     ic \<leftarrow> required (as_str env) d ''icon'';
     Some \<lparr>wc_id = i, wc_main = m, description = ds, icon = ic\<rparr>
   }"

definition validate_MainWeatherData :: "'f py_env \<Rightarrow> (string \<times> 'f json) list \<Rightarrow> 'f MainWeatherData option" where
  "validate_MainWeatherData env d = do {
     t \<leftarrow> required (as_float env) d ''temp'';
     fl \<leftarrow> required (as_float env) d ''feels_like'';
     tmin \<leftarrow> required (as_float env) d ''temp_min'';
     tmax \<leftarrow> required (as_float env) d ''temp_max'';
     p \<leftarrow> required (as_int env) d ''pressure'';
     h \<leftarrow> required (as_int env) d ''humidity'';
     sl \<leftarrow> optional (as_int env) d ''sea_level'';
     gl \<leftarrow> optional (as_int env) d ''grnd_level'';
     Some \<lparr>temp = t, feels_like = fl, temp_min = tmin, temp_max = tmax, pressure = p,
           humidity = h, sea_level = sl, grnd_level = gl\<rparr>
   }"

definition validate_WindData :: "'f py_env \<Rightarrow> (string \<times> 'f json) list \<Rightarrow> 'f WindData option" where
  "validate_WindData env d = do {
     s \<leftarrow> required (as_float env) d ''speed'';
     dg \<leftarrow> required (as_int env) d ''deg'';
     g \<leftarrow> optional (as_float env) d ''gust'';
     Some \<lparr>speed = s, deg = dg, gust = g\<rparr>
   }"

definition validate_CloudData :: "'f py_env \<Rightarrow> (string \<times> 'f json) list \<Rightarrow> CloudData option" where
  "validate_CloudData env d = do {
     a \<leftarrow> required (as_int env) d ''all'';
     Some \<lparr>clouds_all = a\<rparr>
   }"

definition validate_SystemData :: "'f py_env \<Rightarrow> (string \<times> 'f json) list \<Rightarrow> SystemData option" where
  "validate_SystemData env d = do {
     ty \<leftarrow> optional (as_int env) d ''type'';
     i \<leftarrow> optional (as_int env) d ''id'';
     c \<leftarrow> required (as_str env) d ''country'';
     sr \<leftarrow> required (as_int env) d ''sunrise'';
     ss \<leftarrow> required (as_int env) d ''sunset'';
     Some \<lparr>sys_type = ty, sys_id = i, sys_country = c, sunrise = sr, sunset = ss\<rparr>
   }"

text \<open>
  The classes set no model configuration, so keys of the input that are not declared
  fields are ignored and the model keeps no extra attributes.
\<close>

definition validate_WeatherResponse :: "'f py_env \<Rightarrow> (string \<times> 'f json) list \<Rightarrow> 'f WeatherResponse option" where
  "validate_WeatherResponse env d = do {
     co \<leftarrow> required (as_float_dict env) d ''coord'';
     we \<leftarrow> required (as_list (as_model (validate_WeatherCondition env))) d ''weather'';
     ba \<leftarrow> required (as_str env) d ''base'';
     ma \<leftarrow> required (as_model (validate_MainWeatherData env)) d ''main'';
     vi \<leftarrow> required (as_int env) d ''visibility'';
     wi \<leftarrow> required (as_model (validate_WindData env)) d ''wind'';
     cl \<leftarrow> required (as_model (validate_CloudData env)) d ''clouds'';
     t \<leftarrow> required (as_int env) d ''dt'';
     sy \<leftarrow> required (as_model (validate_SystemData env)) d ''sys'';
     tz \<leftarrow> required (as_int env) d ''timezone'';
     i \<leftarrow> required (as_int env) d ''id'';
     n \<leftarrow> required (as_str env) d ''name'';
     c \<leftarrow> required (as_int env) d ''cod'';
     Some \<lparr>coord = co, weather = we, base = ba, main = ma, visibility = vi, wind = wi,
           clouds = cl, dt = t, sys = sy, timezone = tz, loc_id = i, name = n, cod = c,
           pydantic_extra = None\<rparr>
   }"

text \<open>\<open>WeatherResponse(**data)\<close>: the model, or pydantic's \<open>ValidationError\<close>.\<close>

definition new_WeatherResponse :: "'f py_env \<Rightarrow> (string \<times> 'f json) list \<Rightarrow> 'f exc + 'f WeatherResponse" where
  "new_WeatherResponse env d = (case validate_WeatherResponse env d of
       None \<Rightarrow> Inl (ValidationError d)
     | Some w \<Rightarrow> Inr w)"

section \<open>weather.py: the client\<close>

text \<open>The settings of \<open>config.py\<close> that the client reads.\<close>

record Settings =
  OPENWEATHER_API_KEY :: string
  OPENWEATHER_BASE_URL :: string
  REQUEST_TIMEOUT :: int

text \<open>
  What \<open>session.get\<close>, \<open>response.raise_for_status()\<close> and \<open>response.json()\<close> do is the
  network's and the \<open>requests\<close> library's: either one of them raises a
  \<open>RequestException\<close> \<open>e\<close> (connection error, timeout, HTTP error status, a body that is
  not JSON), of which the code reads \<open>e.response\<close> (\<open>None\<close>, or a response with its
  \<open>status_code\<close>) and \<open>str(e)\<close>, or the decoded body is returned.
\<close>

datatype 'f transport =
    RequestException "int option" string
  | Body "'f json"

text \<open>The session: from the URL, the query parameters and the timeout to the outcome.\<close>

type_synonym 'f session = "string \<Rightarrow> (string \<times> string) list \<Rightarrow> int \<Rightarrow> 'f transport"

record 'f WeatherClient =
  api_key :: string
  base_url :: string
  session :: "'f session"

text \<open>
  The truth value of an optional string: \<open>None\<close> and the empty string are false.
  \<open>x or y\<close> is \<open>x\<close> when \<open>x\<close> is true and \<open>y\<close> otherwise.
\<close>

definition truthy :: "string option \<Rightarrow> bool" where
  "truthy x = (case x of None \<Rightarrow> False | Some s \<Rightarrow> s \<noteq> [])"

definition or_else :: "string option \<Rightarrow> string \<Rightarrow> string" where
  "or_else x y = (case x of None \<Rightarrow> y | Some s \<Rightarrow> if s \<noteq> [] then s else y)"

definition new_WeatherClient :: "Settings \<Rightarrow> 'f session \<Rightarrow> string option \<Rightarrow> string option \<Rightarrow> 'f WeatherClient" where
  "new_WeatherClient settings sess key url =
     \<lparr>api_key = or_else key (OPENWEATHER_API_KEY settings),
      base_url = or_else url (OPENWEATHER_BASE_URL settings),
      session = sess\<rparr>"

text \<open>
  \<open>_handle_api_error\<close>: every path raises. A \<open>str\<close> status code goes through \<open>int()\<close>,
  which may raise \<open>ValueError\<close>; any other value is compared as it is.
\<close>

definition handle_api_error :: "'f py_env \<Rightarrow> 'f json \<Rightarrow> 'f json \<Rightarrow> 'f exc + unit" where
  "handle_api_error env status_code message =
     (case (case status_code of
              JStr s \<Rightarrow> (case int_of_str (int_max_str_digits env) s of
                           None \<Rightarrow> Inl (ValueError s)
                         | Some i \<Rightarrow> Inr (JInt i))
            | _ \<Rightarrow> Inr status_code) of
        Inl e \<Rightarrow> Inl e
      | Inr status_code_int \<Rightarrow>
          if py_eq_int env status_code_int 401 then
            Inl (new_InvalidAPIKeyError [status_code_int, message])
          else if py_eq_int env status_code_int 404 then
            Inl (LocationNotFoundError (''Location not found: '' @ py_str env message))
          else if py_eq_int env status_code_int 429 then
            Inl (new_RateLimitExceededError [status_code_int, message])
          else
            Inl (new_APIError [status_code_int, message]))"

text \<open>The \<open>q\<close> parameter of the request.\<close>

definition query_term :: "string \<Rightarrow> string option \<Rightarrow> string" where
  "query_term city country_code = (case country_code of
       None \<Rightarrow> city
     | Some cc \<Rightarrow> if truthy country_code then city @ '','' @ cc else city)"

definition request_params :: "'f WeatherClient \<Rightarrow> string \<Rightarrow> string option \<Rightarrow> string \<Rightarrow> string \<Rightarrow> (string \<times> string) list" where
  "request_params self city country_code units lang =
     [(''q'', query_term city country_code),
      (''appid'', api_key self),
      (''units'', units),
      (''lang'', lang)]"

text \<open>
  \<open>get_weather_by_city\<close>. Only a \<open>RequestException\<close> is caught; what
  \<open>_handle_api_error\<close> and \<open>WeatherResponse(**data)\<close> raise passes through, and so does
  the \<open>AttributeError\<close> of \<open>data.get\<close> when the body is not an object.
\<close>

definition get_weather_by_city :: "'f py_env \<Rightarrow> Settings \<Rightarrow> 'f WeatherClient \<Rightarrow> string \<Rightarrow> string option \<Rightarrow> string \<Rightarrow> string \<Rightarrow> 'f exc + 'f WeatherResponse" where
  "get_weather_by_city env settings self city country_code units lang =
     (case session self (base_url self) (request_params self city country_code units lang)
             (REQUEST_TIMEOUT settings) of
        RequestException response text \<Rightarrow>
          Inl (APIError (JInt (case response of None \<Rightarrow> 500 | Some status_code \<Rightarrow> status_code))
                        (JStr text))
      | Body data \<Rightarrow>
          (case data of
             JObj d \<Rightarrow>
               if \<not> py_eq_int env (dict_get d ''cod'' JNull) 200 then
                 (case handle_api_error env (dict_get d ''cod'' (JInt 500))
                                            (dict_get d ''message'' (JStr ''Unknown error'')) of
                    Inl e \<Rightarrow> Inl e
                  | Inr _ \<Rightarrow> new_WeatherResponse env d)
               else new_WeatherResponse env d
           | _ \<Rightarrow> Inl (AttributeError ''get'')))"

section \<open>cli.py: the formatter\<close>

text \<open>
  \<open>n / d\<close> rounded to the nearest integer, a tie to the even one (\<open>n\<close> not negative,
  \<open>d\<close> positive).
\<close>

definition round_half_even :: "int \<Rightarrow> int \<Rightarrow> int" where
  "round_half_even n d =
     (let q = n div d; r = n mod d
      in if 2 * r < d then q else if d < 2 * r then q + 1 else if even q then q else q + 1)"

text \<open>\<open>n.bit_length()\<close> of a number that is not negative.\<close>

function bit_length :: "int \<Rightarrow> int" where
  "bit_length n = (if n \<le> 0 then 0 else 1 + bit_length (n div 2))"
  by pat_completeness auto
termination
  by (relation "measure nat") auto

declare bit_length.simps [simp del]

text \<open>
  \<open>a / 1000\<close> for a positive \<open>int\<close> \<open>a\<close>: the double nearest to the quotient, a tie to
  the even significand. The result \<open>(m, p)\<close> is the double \<open>m * 2 ^ p\<close>, where the
  significand \<open>m\<close> has 53 bits; \<open>e\<close> is the exponent of the quotient,
  \<open>2 ^ e \<le> a / 1000 < 2 ^ (e + 1)\<close>. \<open>None\<close> is the \<open>OverflowError\<close> of a quotient that
  no double holds.
\<close>

definition div_1000 :: "int \<Rightarrow> (int \<times> int) option" where
  "div_1000 a =
     (let k = bit_length a - bit_length 1000;
          e = (if (if 0 \<le> k then 1000 * 2 ^ nat k \<le> a else 1000 \<le> a * 2 ^ nat (- k))
               then k else k - 1);
          p = e - 52;
          m = (if 0 \<le> p then round_half_even a (1000 * 2 ^ nat p)
               else round_half_even (a * 2 ^ nat (- p)) 1000)
      in if 0 \<le> p \<and> 2 ^ 1024 \<le> m * 2 ^ nat p then None else Some (m, p))"

text \<open>
  \<open>f"{v / 1000:.1f} km"\<close> for a nonzero \<open>int\<close> \<open>v\<close>: the decimal with one digit after
  the point that is nearest to the double, a tie to the even digit, with the sign of
  \<open>v\<close>. \<open>None\<close> is the \<open>OverflowError\<close> of the division.
\<close>

definition format_km :: "int \<Rightarrow> string option" where
  "format_km v = (case div_1000 \<bar>v\<bar> of
       None \<Rightarrow> None
     | Some (m, p) \<Rightarrow>
         (let n = (if 0 \<le> p then 10 * m * 2 ^ nat p
                   else round_half_even (10 * m) (2 ^ nat (- p)))
          in Some ((if v < 0 then ''-'' else []) @ str_digits (n div 10) @ ''.''
                   @ [digit_char (n mod 10)] @ '' km'')))"

text \<open>
  An attribute of a \<open>WeatherResponse\<close> that is not a declared field, such as \<open>rain\<close> and
  \<open>snow\<close>: \<open>None\<close> when \<open>hasattr\<close> is false.
\<close>

definition getattr_extra :: "'f WeatherResponse \<Rightarrow> string \<Rightarrow> 'f json option" where
  "getattr_extra w a = (case pydantic_extra w of None \<Rightarrow> None | Some ex \<Rightarrow> map_of ex a)"

definition json_opt :: "('a \<Rightarrow> 'f json) \<Rightarrow> 'a option \<Rightarrow> 'f json" where
  "json_opt f x = (case x of None \<Rightarrow> JNull | Some v \<Rightarrow> f v)"

text \<open>The two unit labels, which \<open>format_weather_data\<close> computes first.\<close>

definition temp_unit :: "string \<Rightarrow> string" where
  "temp_unit units = (if units = ''metric'' then [CHR 0xB0, CHR ''C''] else [CHR 0xB0, CHR ''F''])"

definition speed_unit :: "string \<Rightarrow> string" where
  "speed_unit units = (if units = ''metric'' then ''m/s'' else ''mph'')"

text \<open>
  \<open>format_weather_data\<close>. The entries of the dictionary are evaluated in the order they
  are written, so the first failing one decides the exception: \<open>coord['lat']\<close> and
  \<open>coord['lon']\<close> raise \<open>KeyError\<close>, \<open>weather[0]\<close> raises \<open>IndexError\<close> on an empty list,
  the division of the visibility and \<open>datetime.fromtimestamp\<close> may raise. \<open>hasattr\<close> is
  true of a declared field (\<open>deg\<close>, \<open>gust\<close>, \<open>clouds\<close>, \<open>timezone\<close>).
\<close>

definition format_weather_data :: "'f py_env \<Rightarrow> 'f WeatherResponse \<Rightarrow> string \<Rightarrow> 'f exc + 'f json" where
  "format_weather_data env weather_data units =
     (let temp_unit = temp_unit units;
          speed_unit = speed_unit units
      in case map_of (coord weather_data) ''lat'' of None \<Rightarrow> Inl (KeyError ''lat'') | Some lat \<Rightarrow>
         case map_of (coord weather_data) ''lon'' of None \<Rightarrow> Inl (KeyError ''lon'') | Some lon \<Rightarrow>
         case weather weather_data of [] \<Rightarrow> Inl IndexError | w0 # _ \<Rightarrow>
         case (if visibility weather_data \<noteq> 0 then format_km (visibility weather_data)
               else Some ''N/A'') of None \<Rightarrow> Inl OverflowError | Some vis \<Rightarrow>
         case fromtimestamp_isoformat env (sunrise (sys weather_data)) of Inl e \<Rightarrow> Inl e | Inr sr \<Rightarrow>
         case fromtimestamp_isoformat env (sunset (sys weather_data)) of Inl e \<Rightarrow> Inl e | Inr ss \<Rightarrow>
         Inr (JObj
           [(''location'', JObj
              [(''city'', JStr (name weather_data)),
               (''country'', JStr (sys_country (sys weather_data))),
               (''coordinates'', JObj [(''lat'', JFloat lat), (''lon'', JFloat lon)])]),
            (''weather'', JObj
              [(''main'', JStr (wc_main w0)),
               (''description'', JStr (description w0)),
               (''icon'', JStr (icon w0)),
               (''temperature'', JObj
                  [(''current'', JFloat (temp (main weather_data))),
                   (''feels_like'', JFloat (feels_like (main weather_data))),
                   (''min'', JFloat (temp_min (main weather_data))),
                   (''max'', JFloat (temp_max (main weather_data))),
                   (''unit'', JStr temp_unit)]),
               (''pressure'', JStr (str_int (pressure (main weather_data)) @ '' hPa'')),
               (''humidity'', JStr (str_int (humidity (main weather_data)) @ ''%'')),
               (''visibility'', JStr vis),
               (''wind'', JObj
                  [(''speed'', JStr (float_str env (speed (wind weather_data)) @ '' '' @ speed_unit)),
                   (''degree'', JInt (deg (wind weather_data))),
                   (''gust'', json_opt JFloat (gust (wind weather_data)))]),
               (''clouds'', JStr (str_int (clouds_all (clouds weather_data)) @ ''%'')),
               (''rain'', json_opt id (getattr_extra weather_data ''rain'')),
               (''snow'', json_opt id (getattr_extra weather_data ''snow'')),
               (''sun'', JObj [(''sunrise'', JStr sr), (''sunset'', JStr ss)]),
               (''timezone'', JInt (timezone weather_data)),
               (''timestamp'', JStr (now_isoformat env))])]))"

text \<open>Reading the output: \<open>result[k1][k2]...\<close>.\<close>

fun lookup_path :: "'f json \<Rightarrow> string list \<Rightarrow> 'f json option" where
  "lookup_path v [] = Some v"
| "lookup_path (JObj d) (k # ks) = (case map_of d k of None \<Rightarrow> None | Some v \<Rightarrow> lookup_path v ks)"
| "lookup_path _ (k # ks) = None"

section \<open>cli.py: the command\<close>

text \<open>
  What one run of \<open>get\<close> leaves behind: the exit status, the lines echoed to the
  standard output and to the error stream, and the file written, if any.
\<close>

record cli_result =
  exit_code :: int
  stdout :: "string list"
  stderr :: "string list"
  written :: "(string \<times> string) option"

text \<open>
  The city and the country code that \<open>get\<close> passes to the client. A location without
  comma is the city, and the \<open>--country\<close> option is kept. Otherwise the location is split
  at the commas and the parts are stripped; the list has two parts at least then.
  \<open>None\<close> is the \<open>IndexError\<close> of \<open>location_parts[0]\<close> on an empty list.
\<close>

definition location_city_country :: "string \<Rightarrow> string option \<Rightarrow> (string \<times> string option) option" where
  "location_city_country location country =
     (if CHR '','' \<in> set location then
        (let location_parts = map strip (split CHR '','' location)
         in case location_parts of
              [] \<Rightarrow> None
            | city # _ \<Rightarrow>
                Some (city, if 1 < length location_parts then Some (location_parts ! 1)
                            else country))
      else Some (location, country))"

definition credential_message :: string where
  "credential_message =
     ''Invalid or missing API key. Please set the OPENWEATHER_API_KEY '' @
     ''environment variable or use the --api-key option.''"

text \<open>
  The body of the \<open>try\<close> block of \<open>get\<close>: the result of the run, or the exception that
  leaves the block.
\<close>

definition get_body :: "'f py_env \<Rightarrow> Settings \<Rightarrow> 'f session \<Rightarrow> string \<Rightarrow> string option \<Rightarrow> string \<Rightarrow> string option \<Rightarrow> bool \<Rightarrow> string option \<Rightarrow> 'f exc + cli_result" where
  "get_body env settings sess location country units output pretty key =
     (if \<not> truthy key then Inl (new_InvalidAPIKeyError [JStr ''API key is required''])
      else
        (let client = new_WeatherClient settings sess key None
         in case location_city_country location country of
              None \<Rightarrow> Inl IndexError | Some (city, country') \<Rightarrow>
            case get_weather_by_city env settings client city country' units ''en'' of
              Inl e \<Rightarrow> Inl e | Inr weather_data \<Rightarrow>
            case format_weather_data env weather_data units of
              Inl e \<Rightarrow> Inl e | Inr formatted_data \<Rightarrow>
            (let json_output = json_dumps env pretty formatted_data
             in case output of
                  None \<Rightarrow> Inr \<lparr>exit_code = 0, stdout = [json_output], stderr = [], written = None\<rparr>
                | Some path \<Rightarrow>
                    if truthy output then
                      (case open_write env path json_output of
                         Some e \<Rightarrow> Inl e
                       | None \<Rightarrow> Inr \<lparr>exit_code = 0, stdout = [],
                                      stderr = [''Weather data saved to '' @ path],
                                      written = Some (path, json_output)\<rparr>)
                    else Inr \<lparr>exit_code = 0, stdout = [json_output], stderr = [], written = None\<rparr>)))"

text \<open>
  \<open>get\<close>: the two \<open>except\<close> clauses. An application error prints \<open>Error:\<close> with its
  text, or with the message about the credential for an \<open>InvalidAPIKeyError\<close>; any
  other exception prints \<open>Unexpected error:\<close>. Both exit with status 1.
\<close>

definition get :: "'f py_env \<Rightarrow> Settings \<Rightarrow> 'f session \<Rightarrow> string \<Rightarrow> string option \<Rightarrow> string \<Rightarrow> string option \<Rightarrow> bool \<Rightarrow> string option \<Rightarrow> cli_result" where
  "get env settings sess location country units output pretty key =
     (case get_body env settings sess location country units output pretty key of
        Inr r \<Rightarrow> r
      | Inl e \<Rightarrow>
          if is_WeatherAppError e then
            (let error_msg = (if is_InvalidAPIKeyError e then credential_message
                              else exc_str env e)
             in \<lparr>exit_code = 1, stdout = [], stderr = [''Error: '' @ error_msg], written = None\<rparr>)
          else
            \<lparr>exit_code = 1, stdout = [], stderr = [''Unexpected error: '' @ exc_str env e],
             written = None\<rparr>)"

section \<open>A test environment and the test payload\<close>

text \<open>
  An environment to run the code in. A float is named by its shortest decimal
  representation, which is what \<open>str\<close> prints; the validators accept a value of the
  declared type, and an \<open>int\<close> for a \<open>float\<close>; the clock, the file system and
  \<open>json.dumps\<close> are stubs.
\<close>

definition test_env :: "string py_env" where
  "test_env =
     \<lparr>float_eq_int = (\<lambda>x k. x = str_int k @ ''.0''),
      float_str = (\<lambda>x. x),
      container_repr = (\<lambda>_. ''<container>''),
      builtin_str = (\<lambda>_. ''<builtin>''),
      as_int = (\<lambda>v. case v of JInt i \<Rightarrow> Some i | _ \<Rightarrow> None),
      as_float = (\<lambda>v. case v of JFloat x \<Rightarrow> Some x | JInt i \<Rightarrow> Some (str_int i @ ''.0'')
                          | _ \<Rightarrow> None),
      as_str = (\<lambda>v. case v of JStr s \<Rightarrow> Some s | _ \<Rightarrow> None),
      int_max_str_digits = 4300,
      fromtimestamp_isoformat = (\<lambda>t. Inr (str_int t)),
      now_isoformat = ''<now>'',
      json_dumps = (\<lambda>_ _. ''<json>''),
      open_write = (\<lambda>_ _. None)\<rparr>"

definition test_settings :: Settings where
  "test_settings =
     \<lparr>OPENWEATHER_API_KEY = ''settings_key'',
      OPENWEATHER_BASE_URL = ''https://api.openweathermap.org/data/2.5/weather'',
      REQUEST_TIMEOUT = 10\<rparr>"

text \<open>The payload of \<open>test_get_weather_by_city_success\<close>.\<close>

definition london :: "(string \<times> string json) list" where
  "london =
     [(''coord'', JObj [(''lon'', JFloat ''-0.1257''), (''lat'', JFloat ''51.5085'')]),
      (''weather'', JList [JObj [(''id'', JInt 800), (''main'', JStr ''Clear''),
                                 (''description'', JStr ''clear sky''), (''icon'', JStr ''01d'')]]),
      (''base'', JStr ''stations''),
      (''main'', JObj [(''temp'', JFloat ''15.5''), (''feels_like'', JFloat ''14.8''),
                       (''temp_min'', JFloat ''14.0''), (''temp_max'', JFloat ''16.0''),
                       (''pressure'', JInt 1012), (''humidity'', JInt 72)]),
      (''visibility'', JInt 10000),
      (''wind'', JObj [(''speed'', JFloat ''3.6''), (''deg'', JInt 200)]),
      (''clouds'', JObj [(''all'', JInt 0)]),
      (''dt'', JInt 1620000000),
      (''sys'', JObj [(''type'', JInt 2), (''id'', JInt 2019646), (''country'', JStr ''GB''),
                      (''sunrise'', JInt 1619950000), (''sunset'', JInt 1620000000)]),
      (''timezone'', JInt 3600),
      (''id'', JInt 2643743),
      (''name'', JStr ''London''),
      (''cod'', JInt 200)]"

text \<open>The model that the payload validates to.\<close>

definition london_response :: "string WeatherResponse" where
  "london_response =
     \<lparr>coord = [(''lon'', ''-0.1257''), (''lat'', ''51.5085'')],
      weather = [\<lparr>wc_id = 800, wc_main = ''Clear'', description = ''clear sky'', icon = ''01d''\<rparr>],
      base = ''stations'',
      main = \<lparr>temp = ''15.5'', feels_like = ''14.8'', temp_min = ''14.0'', temp_max = ''16.0'',
              pressure = 1012, humidity = 72, sea_level = None, grnd_level = None\<rparr>,
      visibility = 10000,
      wind = \<lparr>speed = ''3.6'', deg = 200, gust = None\<rparr>,
      clouds = \<lparr>clouds_all = 0\<rparr>,
      dt = 1620000000,
      sys = \<lparr>sys_type = Some 2, sys_id = Some 2019646, sys_country = ''GB'',
             sunrise = 1619950000, sunset = 1620000000\<rparr>,
      timezone = 3600, loc_id = 2643743, name = ''London'', cod = 200,
      pydantic_extra = None\<rparr>"

text \<open>
  Variants of the payload: the status as the string \<open>"200"\<close>, no \<open>visibility\<close>, a
  \<open>wind\<close> without \<open>deg\<close>, and a \<open>rain\<close> entry.
\<close>

definition london_cod_str :: "(string \<times> string json) list" where
  "london_cod_str = AList.update ''cod'' (JStr ''200'') london"

definition london_no_visibility :: "(string \<times> string json) list" where
  "london_no_visibility = AList.delete ''visibility'' london"

definition london_no_deg :: "(string \<times> string json) list" where
  "london_no_deg = AList.update ''wind'' (JObj [(''speed'', JFloat ''3.6'')]) london"

definition london_rain :: "(string \<times> string json) list" where
  "london_rain = AList.update ''rain'' (JObj [(''1h'', JFloat ''0.5'')]) london"

text \<open>
  More variants: a \<open>coord\<close> without \<open>lat\<close>, the observation time as the string
  \<open>"1620000000"\<close>, and an empty list of conditions.
\<close>

definition london_no_lat :: "(string \<times> string json) list" where
  "london_no_lat = AList.update ''coord'' (JObj [(''lon'', JFloat ''-0.1257'')]) london"

definition london_dt_str :: "(string \<times> string json) list" where
  "london_dt_str = AList.update ''dt'' (JStr ''1620000000'') london"

definition london_empty_weather :: "(string \<times> string json) list" where
  "london_empty_weather = AList.update ''weather'' (JList []) london"

text \<open>
  The test environment with a validator for \<open>int\<close> that also converts a string of
  decimal digits, as the default mode of pydantic does.
\<close>

definition lax_env :: "string py_env" where
  "lax_env = test_env
     \<lparr>as_int := (\<lambda>v. case v of
                   JInt i \<Rightarrow> Some i
                 | JStr s \<Rightarrow> if list_all is_digit s then int_body s else None
                 | _ \<Rightarrow> None)\<rparr>"

text \<open>A session that answers every request with the same outcome.\<close>

definition answering :: "'f transport \<Rightarrow> 'f session" where
  "answering r = (\<lambda>url params timeout. r)"

definition test_client :: "string transport \<Rightarrow> string WeatherClient" where
  "test_client r = new_WeatherClient test_settings (answering r) (Some ''test_key'') None"

section \<open>The fields the model declares and the fields the specification requires\<close>

datatype field_type = Integer | Float | String

text \<open>
  From the classes of \<open>weather.py\<close>: the scalar fields declared without a default, as
  paths into the payload with the declared type. \<open>coord\<close> is declared as a dictionary of
  floats with any keys, and \<open>weather\<close> as a list, of any length, of conditions with the
  four fields of \<open>condition_fields\<close>. \<open>validator_accepts\<close> says that pydantic's
  validator for the declared type accepts a value; which values it converts is pydantic's
  matter, not the code's.
\<close>

definition validator_accepts :: "'f py_env \<Rightarrow> field_type \<Rightarrow> 'f json \<Rightarrow> bool" where
  "validator_accepts env t v = (case t of
       Integer \<Rightarrow> as_int env v \<noteq> None
     | Float \<Rightarrow> as_float env v \<noteq> None
     | String \<Rightarrow> as_str env v \<noteq> None)"

definition declared_fields :: "(string list \<times> field_type) list" where
  "declared_fields =
     [([''base''], String),
      ([''main'', ''temp''], Float), ([''main'', ''feels_like''], Float),
      ([''main'', ''temp_min''], Float), ([''main'', ''temp_max''], Float),
      ([''main'', ''pressure''], Integer), ([''main'', ''humidity''], Integer),
      ([''visibility''], Integer),
      ([''wind'', ''speed''], Float), ([''wind'', ''deg''], Integer),
      ([''clouds'', ''all''], Integer),
      ([''dt''], Integer),
      ([''sys'', ''country''], String), ([''sys'', ''sunrise''], Integer),
      ([''sys'', ''sunset''], Integer),
      ([''timezone''], Integer), ([''id''], Integer), ([''name''], String), ([''cod''], Integer)]"

definition condition_fields :: "(string list \<times> field_type) list" where
  "condition_fields =
     [([''id''], Integer), ([''main''], String), ([''description''], String), ([''icon''], String)]"

text \<open>The field at a path is missing, or pydantic's validator rejects its value.\<close>

definition field_missing_or_rejected :: "'f py_env \<Rightarrow> 'f json \<Rightarrow> string list \<times> field_type \<Rightarrow> bool" where
  "field_missing_or_rejected env v pt = (case lookup_path v (fst pt) of
       None \<Rightarrow> True
     | Some x \<Rightarrow> \<not> validator_accepts env (snd pt) x)"

text \<open>
  A payload in which a declared field without default is missing or holds a value that
  pydantic's validator rejects.
\<close>

definition missing_or_rejected :: "'f py_env \<Rightarrow> (string \<times> 'f json) list \<Rightarrow> bool" where
  "missing_or_rejected env d =
     (list_ex (field_missing_or_rejected env (JObj d)) declared_fields
      \<or> (case map_of d ''coord'' of
            Some (JObj c) \<Rightarrow> list_ex (\<lambda>kx. as_float env (snd kx) = None) c
          | _ \<Rightarrow> True)
      \<or> (case map_of d ''weather'' of
            Some (JList ws) \<Rightarrow>
              list_ex (\<lambda>w. list_ex (field_missing_or_rejected env w) condition_fields) ws
          | _ \<Rightarrow> True))"

text \<open>
  From the words of the specification (its data model): the fields it calls required, with
  the JSON type it gives them. Coordinates are \<open>latitude, longitude (floats). Required\<close>;
  the sequence of conditions \<open>must be non-empty for a valid response\<close>; visibility, the
  wind direction and the UTC offset are optional there and so are not in the list. A JSON
  integer counts as a float.
\<close>

definition spec_has_type :: "field_type \<Rightarrow> 'f json \<Rightarrow> bool" where
  "spec_has_type t v = (case t of
       Integer \<Rightarrow> (case v of JInt _ \<Rightarrow> True | _ \<Rightarrow> False)
     | Float \<Rightarrow> (case v of JFloat _ \<Rightarrow> True | JInt _ \<Rightarrow> True | _ \<Rightarrow> False)
     | String \<Rightarrow> (case v of JStr _ \<Rightarrow> True | _ \<Rightarrow> False))"

definition spec_required_fields :: "(string list \<times> field_type) list" where
  "spec_required_fields =
     [([''coord'', ''lat''], Float), ([''coord'', ''lon''], Float),
      ([''base''], String),
      ([''main'', ''temp''], Float), ([''main'', ''feels_like''], Float),
      ([''main'', ''temp_min''], Float), ([''main'', ''temp_max''], Float),
      ([''main'', ''pressure''], Integer), ([''main'', ''humidity''], Integer),
      ([''wind'', ''speed''], Float),
      ([''clouds'', ''all''], Integer),
      ([''dt''], Integer),
      ([''sys'', ''country''], String), ([''sys'', ''sunrise''], Integer),
      ([''sys'', ''sunset''], Integer),
      ([''id''], Integer), ([''name''], String), ([''cod''], Integer)]"

definition spec_field_missing_or_wrong :: "'f json \<Rightarrow> string list \<times> field_type \<Rightarrow> bool" where
  "spec_field_missing_or_wrong v pt = (case lookup_path v (fst pt) of
       None \<Rightarrow> True
     | Some x \<Rightarrow> \<not> spec_has_type (snd pt) x)"

text \<open>
  A payload that misses a field the specification requires, or holds a value of another
  JSON type there.
\<close>

definition spec_missing_or_wrong :: "(string \<times> 'f json) list \<Rightarrow> bool" where
  "spec_missing_or_wrong d =
     (list_ex (spec_field_missing_or_wrong (JObj d)) spec_required_fields
      \<or> (case map_of d ''weather'' of
            Some (JList ws) \<Rightarrow>
              ws = [] \<or> list_ex (\<lambda>w. list_ex (spec_field_missing_or_wrong w) condition_fields) ws
          | _ \<Rightarrow> True))"

section \<open>Validation\<close>

lemma required_Some:
  "required f d k = Some x \<Longrightarrow> \<exists>v. map_of d k = Some v \<and> f v = Some x"
  by (auto simp add: required_def split: option.splits)

lemma as_model_Some:
  "as_model f v = Some x \<Longrightarrow> \<exists>d. v = JObj d \<and> f d = Some x"
  by (auto simp add: as_model_def split: json.splits)

lemma those_Some_all: "those xs = Some ys \<Longrightarrow> list_all (\<lambda>x. x \<noteq> None) xs"
  by (induction xs arbitrary: ys) (auto split: option.splits)

lemma req_int: "required (as_int env) d k = Some x \<Longrightarrow> \<exists>v. map_of d k = Some v \<and> validator_accepts env Integer v"
  by (auto simp add: validator_accepts_def dest!: required_Some)
lemma req_float: "required (as_float env) d k = Some x \<Longrightarrow> \<exists>v. map_of d k = Some v \<and> validator_accepts env Float v"
  by (auto simp add: validator_accepts_def dest!: required_Some)
lemma req_str: "required (as_str env) d k = Some x \<Longrightarrow> \<exists>v. map_of d k = Some v \<and> validator_accepts env String v"
  by (auto simp add: validator_accepts_def dest!: required_Some)

lemma Main_ok:
  assumes "validate_MainWeatherData env d = Some m"
  shows "(\<exists>v. map_of d ''temp'' = Some v \<and> validator_accepts env Float v)
       \<and> (\<exists>v. map_of d ''feels_like'' = Some v \<and> validator_accepts env Float v)
       \<and> (\<exists>v. map_of d ''temp_min'' = Some v \<and> validator_accepts env Float v)
       \<and> (\<exists>v. map_of d ''temp_max'' = Some v \<and> validator_accepts env Float v)
       \<and> (\<exists>v. map_of d ''pressure'' = Some v \<and> validator_accepts env Integer v)
       \<and> (\<exists>v. map_of d ''humidity'' = Some v \<and> validator_accepts env Integer v)"
  using assms unfolding validate_MainWeatherData_def
  by (auto split: bind_splits dest!: req_int req_float)


lemma Wind_ok:
  assumes "validate_WindData env d = Some m"
  shows "(\<exists>v. map_of d ''speed'' = Some v \<and> validator_accepts env Float v)
       \<and> (\<exists>v. map_of d ''deg'' = Some v \<and> validator_accepts env Integer v)"
  using assms unfolding validate_WindData_def
  by (auto split: bind_splits dest!: req_int req_float)

lemma Cloud_ok:
  assumes "validate_CloudData env d = Some m"
  shows "\<exists>v. map_of d ''all'' = Some v \<and> validator_accepts env Integer v"
  using assms unfolding validate_CloudData_def
  by (auto split: bind_splits dest!: req_int)

lemma Sys_ok:
  assumes "validate_SystemData env d = Some m"
  shows "(\<exists>v. map_of d ''country'' = Some v \<and> validator_accepts env String v)
       \<and> (\<exists>v. map_of d ''sunrise'' = Some v \<and> validator_accepts env Integer v)
       \<and> (\<exists>v. map_of d ''sunset'' = Some v \<and> validator_accepts env Integer v)"
  using assms unfolding validate_SystemData_def
  by (auto split: bind_splits dest!: req_int req_str)

lemma Condition_ok:
  assumes "as_model (validate_WeatherCondition env) w \<noteq> None"
  shows "\<not> list_ex (field_missing_or_rejected env w) condition_fields"
proof -
  from assms obtain d c where w: "w = JObj d" and c: "validate_WeatherCondition env d = Some c"
    by (auto dest!: as_model_Some)
  from c show ?thesis
    unfolding validate_WeatherCondition_def w condition_fields_def
    by (auto split: bind_splits dest!: req_int req_str simp add: field_missing_or_rejected_def)
qed

lemma weather_ok:
  assumes "required (as_list (as_model (validate_WeatherCondition env))) d ''weather'' = Some we"
  shows "\<exists>ws. map_of d ''weather'' = Some (JList ws)
           \<and> \<not> list_ex (\<lambda>w. list_ex (field_missing_or_rejected env w) condition_fields) ws"
proof -
  from assms obtain ws where m: "map_of d ''weather'' = Some (JList ws)"
    and t: "those (map (as_model (validate_WeatherCondition env)) ws) = Some we"
    by (auto simp add: as_list_def split: json.splits dest!: required_Some)
  from those_Some_all [OF t] have "\<forall>w \<in> set ws. as_model (validate_WeatherCondition env) w \<noteq> None"
    by (simp add: list_all_iff)
  then have "\<not> list_ex (\<lambda>w. list_ex (field_missing_or_rejected env w) condition_fields) ws"
    using Condition_ok by (auto simp add: list_ex_iff)
  with m show ?thesis by simp
qed

lemma coord_ok:
  assumes "required (as_float_dict env) d ''coord'' = Some co"
  shows "\<exists>c. map_of d ''coord'' = Some (JObj c) \<and> \<not> list_ex (\<lambda>kx. as_float env (snd kx) = None) c"
proof -
  from assms obtain c where m: "map_of d ''coord'' = Some (JObj c)"
    and t: "those (map (\<lambda>(k, x). map_option (Pair k) (as_float env x)) c) = Some co"
    by (auto simp add: as_float_dict_def split: json.splits dest!: required_Some)
  from those_Some_all [OF t] have "\<not> list_ex (\<lambda>kx. as_float env (snd kx) = None) c"
    by (auto simp add: list_all_iff list_ex_iff split: prod.splits)
  with m show ?thesis by simp
qed

lemma validate_Some_required:
  assumes v: "validate_WeatherResponse env d = Some w"
  shows "\<not> missing_or_rejected env d"
proof -
  from v obtain co we ma wi cl sy where
    co: "required (as_float_dict env) d ''coord'' = Some co" and
    we: "required (as_list (as_model (validate_WeatherCondition env))) d ''weather'' = Some we" and
    ba: "\<exists>x. required (as_str env) d ''base'' = Some x" and
    ma: "required (as_model (validate_MainWeatherData env)) d ''main'' = Some ma" and
    vi: "\<exists>x. required (as_int env) d ''visibility'' = Some x" and
    wi: "required (as_model (validate_WindData env)) d ''wind'' = Some wi" and
    cl: "required (as_model (validate_CloudData env)) d ''clouds'' = Some cl" and
    dt: "\<exists>x. required (as_int env) d ''dt'' = Some x" and
    sy: "required (as_model (validate_SystemData env)) d ''sys'' = Some sy" and
    tz: "\<exists>x. required (as_int env) d ''timezone'' = Some x" and
    i: "\<exists>x. required (as_int env) d ''id'' = Some x" and
    n: "\<exists>x. required (as_str env) d ''name'' = Some x" and
    c: "\<exists>x. required (as_int env) d ''cod'' = Some x"
    unfolding validate_WeatherResponse_def by (auto split: bind_splits)
  from ma obtain dm where dm: "map_of d ''main'' = Some (JObj dm)" "validate_MainWeatherData env dm = Some ma"
    by (auto dest!: required_Some as_model_Some)
  from wi obtain dw where dw: "map_of d ''wind'' = Some (JObj dw)" "validate_WindData env dw = Some wi"
    by (auto dest!: required_Some as_model_Some)
  from cl obtain dc where dc: "map_of d ''clouds'' = Some (JObj dc)" "validate_CloudData env dc = Some cl"
    by (auto dest!: required_Some as_model_Some)
  from sy obtain ds where ds: "map_of d ''sys'' = Some (JObj ds)" "validate_SystemData env ds = Some sy"
    by (auto dest!: required_Some as_model_Some)
  have top: "\<not> field_missing_or_rejected env (JObj d) ([''base''], String)"
    "\<not> field_missing_or_rejected env (JObj d) ([''visibility''], Integer)"
    "\<not> field_missing_or_rejected env (JObj d) ([''dt''], Integer)"
    "\<not> field_missing_or_rejected env (JObj d) ([''timezone''], Integer)"
    "\<not> field_missing_or_rejected env (JObj d) ([''id''], Integer)"
    "\<not> field_missing_or_rejected env (JObj d) ([''name''], String)"
    "\<not> field_missing_or_rejected env (JObj d) ([''cod''], Integer)"
    using ba vi dt tz i n c by (auto dest!: req_int req_str simp add: field_missing_or_rejected_def)
  have nested: "\<not> field_missing_or_rejected env (JObj d) ([''main'', ''temp''], Float)"
    "\<not> field_missing_or_rejected env (JObj d) ([''main'', ''feels_like''], Float)"
    "\<not> field_missing_or_rejected env (JObj d) ([''main'', ''temp_min''], Float)"
    "\<not> field_missing_or_rejected env (JObj d) ([''main'', ''temp_max''], Float)"
    "\<not> field_missing_or_rejected env (JObj d) ([''main'', ''pressure''], Integer)"
    "\<not> field_missing_or_rejected env (JObj d) ([''main'', ''humidity''], Integer)"
    "\<not> field_missing_or_rejected env (JObj d) ([''wind'', ''speed''], Float)"
    "\<not> field_missing_or_rejected env (JObj d) ([''wind'', ''deg''], Integer)"
    "\<not> field_missing_or_rejected env (JObj d) ([''clouds'', ''all''], Integer)"
    "\<not> field_missing_or_rejected env (JObj d) ([''sys'', ''country''], String)"
    "\<not> field_missing_or_rejected env (JObj d) ([''sys'', ''sunrise''], Integer)"
    "\<not> field_missing_or_rejected env (JObj d) ([''sys'', ''sunset''], Integer)"
    using Main_ok [OF dm(2)] Wind_ok [OF dw(2)] Cloud_ok [OF dc(2)] Sys_ok [OF ds(2)] dm(1) dw(1) dc(1) ds(1)
    by (auto simp add: field_missing_or_rejected_def)
  have "\<not> list_ex (field_missing_or_rejected env (JObj d)) declared_fields"
    unfolding declared_fields_def using top nested by simp
  then show ?thesis
    using coord_ok [OF co] weather_ok [OF we] by (auto simp add: missing_or_rejected_def)
qed

section \<open>Classification of failures\<close>

text \<open>
  C4. When the transport fails, that is when the session raises a \<open>RequestException\<close>,
  the client raises the generic \<open>APIError\<close>. It carries the status code of the
  exception's response, or 500 when the exception has no response, and the text of the
  exception as its message.
\<close>

theorem transport_failure_is_APIError:
  assumes "session self (base_url self) (request_params self city country_code units lang)
             (REQUEST_TIMEOUT settings) = RequestException response text"
  shows "get_weather_by_city env settings self city country_code units lang =
           Inl (APIError (JInt (case response of None \<Rightarrow> 500 | Some status_code \<Rightarrow> status_code))
                         (JStr text))"
  using assms by (simp add: get_weather_by_city_def)

theorem transport_failure_is_APIError_witness:
  "get_weather_by_city test_env test_settings (test_client (RequestException None ''timed out''))
     ''London'' None ''metric'' ''en'' = Inl (APIError (JInt 500) (JStr ''timed out''))
   \<and> get_weather_by_city test_env test_settings
         (test_client (RequestException (Some 503) ''503 Server Error''))
         ''London'' (Some ''uk'') ''metric'' ''en'' = Inl (APIError (JInt 503) (JStr ''503 Server Error''))"
proof -
  have a: "session (test_client r) (base_url (test_client r))
             (request_params (test_client r) city cc units lang)
             (REQUEST_TIMEOUT test_settings) = r" for r city cc units lang
    by (simp add: test_client_def new_WeatherClient_def answering_def)
  have "get_weather_by_city test_env test_settings (test_client (RequestException None ''timed out''))
          ''London'' None ''metric'' ''en'' = Inl (APIError (JInt 500) (JStr ''timed out''))"
    using transport_failure_is_APIError [where env = test_env, OF a] by simp
  moreover have "get_weather_by_city test_env test_settings
          (test_client (RequestException (Some 503) ''503 Server Error''))
          ''London'' (Some ''uk'') ''metric'' ''en'' =
        Inl (APIError (JInt 503) (JStr ''503 Server Error''))"
    using transport_failure_is_APIError [where env = test_env, OF a] by simp
  ultimately show ?thesis by simp
qed

text \<open>
  C1. A body whose \<open>cod\<close> is 401 makes \<open>_handle_api_error\<close> call
  \<open>InvalidAPIKeyError(status_code_int, message)\<close>, but the class takes the message only:
  the call raises \<open>TypeError\<close>, no \<open>InvalidAPIKeyError\<close> is raised, and the command
  prints \<open>Unexpected error:\<close> with the text of the \<open>TypeError\<close> instead of the message
  about the credential. It exits with status 1. The body is the one of
  \<open>test_get_weather_by_city_api_error\<close>.
\<close>

theorem cod_401_raises_TypeError:
  "get_weather_by_city env settings
     (new_WeatherClient settings
        (answering (Body (JObj [(''cod'', JInt 401), (''message'', JStr ''Invalid API key'')])))
        (Some ''invalid_key'') None)
     ''London'' None ''metric'' ''en'' = Inl (TypeError ''InvalidAPIKeyError'' 1 2)
   \<and> \<not> is_InvalidAPIKeyError (TypeError ''InvalidAPIKeyError'' 1 2 :: 'f exc)
   \<and> \<not> is_APIError (TypeError ''InvalidAPIKeyError'' 1 2 :: 'f exc)
   \<and> get env settings
         (answering (Body (JObj [(''cod'', JInt 401), (''message'', JStr ''Invalid API key'')])))
         ''London'' None ''metric'' None True (Some ''invalid_key'') =
       \<lparr>exit_code = 1, stdout = [],
        stderr = [''Unexpected error: '' @ builtin_str env (TypeError ''InvalidAPIKeyError'' 1 2)],
        written = None\<rparr>
   \<and> ''Unexpected error: '' @ builtin_str env (TypeError ''InvalidAPIKeyError'' 1 2)
       \<noteq> ''Error: '' @ credential_message"
  by (simp add: get_def get_body_def truthy_def location_city_country_def
        get_weather_by_city_def new_WeatherClient_def answering_def dict_get_def py_eq_int_def
        handle_api_error_def new_InvalidAPIKeyError_def exc_str_def numeral_2_eq_2)

text \<open>
  C3, as amended. The payloads are those that pass the client's own test of success, a
  \<open>cod\<close> equal to the number 200 (the string \<open>"200"\<close> does not pass it, see C2). When
  such a payload misses a field that the model declares without default, or holds there a
  value that pydantic's validator for the declared type rejects, the client raises
  pydantic's \<open>ValidationError\<close>. That is not an application error, so it is none of
  \<open>LocationNotFoundError\<close>, \<open>InvalidAPIKeyError\<close>, \<open>RateLimitExceededError\<close> and
  \<open>APIError\<close>, and the dispatch on the provider's status never raises it. The entries
  \<open>lat\<close> and \<open>lon\<close> of \<open>coord\<close> and a first weather condition are not among the declared
  fields.
\<close>

theorem missing_required_field_is_ValidationError:
  assumes "session self (base_url self) (request_params self city country_code units lang)
             (REQUEST_TIMEOUT settings) = Body (JObj d)"
    and "py_eq_int env (dict_get d ''cod'' JNull) 200"
    and "missing_or_rejected env d"
  shows "get_weather_by_city env settings self city country_code units lang =
           Inl (ValidationError d)
         \<and> \<not> is_WeatherAppError (ValidationError d :: 'f exc)
         \<and> handle_api_error env status_code message \<noteq> Inl (ValidationError d')"
proof -
  from assms(3) have "validate_WeatherResponse env d = None"
    using validate_Some_required [of env d] by (cases "validate_WeatherResponse env d") auto
  then have "get_weather_by_city env settings self city country_code units lang =
               Inl (ValidationError d)"
    using assms(1,2) by (simp add: get_weather_by_city_def new_WeatherResponse_def)
  moreover have "handle_api_error env status_code message \<noteq> Inl (ValidationError d')"
    by (auto simp add: handle_api_error_def new_InvalidAPIKeyError_def
          new_RateLimitExceededError_def new_APIError_def split: json.splits option.splits)
  ultimately show ?thesis by simp
qed

theorem missing_required_field_is_ValidationError_witness:
  "get_weather_by_city test_env test_settings
     (test_client (Body (JObj (AList.delete ''base'' london))))
     ''London'' None ''metric'' ''en'' = Inl (ValidationError (AList.delete ''base'' london))
   \<and> get_weather_by_city test_env test_settings
       (test_client (Body (JObj (AList.update ''visibility'' (JStr ''far'') london))))
       ''London'' None ''metric'' ''en'' =
     Inl (ValidationError (AList.update ''visibility'' (JStr ''far'') london))"
proof -
  have a: "session (test_client r) (base_url (test_client r))
             (request_params (test_client r) city cc units lang)
             (REQUEST_TIMEOUT test_settings) = r" for r city cc units lang
    by (simp add: test_client_def new_WeatherClient_def answering_def)
  have b1: "py_eq_int test_env (dict_get (AList.delete ''base'' london) ''cod'' JNull) 200"
    by code_simp
  have c1: "missing_or_rejected test_env (AList.delete ''base'' london)"
    by code_simp
  have b2: "py_eq_int test_env
              (dict_get (AList.update ''visibility'' (JStr ''far'') london) ''cod'' JNull) 200"
    by code_simp
  have c2: "missing_or_rejected test_env (AList.update ''visibility'' (JStr ''far'') london)"
    by code_simp
  show ?thesis
    using missing_required_field_is_ValidationError [OF a b1 c1]
          missing_required_field_is_ValidationError [OF a b2 c2]
    by simp
qed

text \<open>
  The claim as stated, with the required fields and types of the specification, fails on
  two payloads that pass the test of success. The test payload without the latitude
  misses a required field, and the client returns a report. The test payload with the
  observation time as a string of digits holds a string where the specification has an
  integer, and with a validator that converts such strings the client returns the same
  report as for the integer.
\<close>

theorem spec_required_field_counterexample:
  "lookup_path (JObj london_no_lat) [''coord'', ''lat''] = None
   \<and> spec_missing_or_wrong london_no_lat
   \<and> py_eq_int test_env (dict_get london_no_lat ''cod'' JNull) 200
   \<and> get_weather_by_city test_env test_settings (test_client (Body (JObj london_no_lat)))
         ''London'' None ''metric'' ''en'' =
       Inr (london_response\<lparr>coord := [(''lon'', ''-0.1257'')]\<rparr>)
   \<and> lookup_path (JObj london_dt_str) [''dt''] = Some (JStr ''1620000000'')
   \<and> spec_missing_or_wrong london_dt_str
   \<and> py_eq_int lax_env (dict_get london_dt_str ''cod'' JNull) 200
   \<and> get_weather_by_city lax_env test_settings (test_client (Body (JObj london_dt_str)))
         ''London'' None ''metric'' ''en'' = Inr london_response"
  unfolding london_no_lat_def london_dt_str_def by code_simp

lemma int_of_str_404:
  "limit = 0 \<or> 3 \<le> limit \<Longrightarrow> int_of_str limit ''404'' = Some 404"
  by (auto simp add: int_of_str_def strip_by_def is_int_space_def int_body_def is_digit_def
        digit_val_def)

text \<open>
  The status 404 is dispatched to \<open>LocationNotFoundError\<close> in both forms, and the
  message of the exception ends with the provider's message.
\<close>

lemma cod_404_is_LocationNotFound:
  assumes "session self (base_url self) (request_params self city country_code units lang)
             (REQUEST_TIMEOUT settings) = Body (JObj d)"
    and "map_of d ''cod'' = Some (JInt 404) \<or> map_of d ''cod'' = Some (JStr ''404'')"
    and "map_of d ''message'' = Some (JStr text)"
    and "int_max_str_digits env = 0 \<or> 3 \<le> int_max_str_digits env"
  shows "get_weather_by_city env settings self city country_code units lang =
           Inl (LocationNotFoundError (''Location not found: '' @ text))"
  using assms int_of_str_404 [of "int_max_str_digits env"]
  by (auto simp add: get_weather_by_city_def dict_get_def py_eq_int_def handle_api_error_def
        py_str_def)

text \<open>
  C2. The status is compared with 200 before it is converted: \<open>data.get('cod') != 200\<close>
  is true of the string \<open>"200"\<close>. \<open>_handle_api_error\<close> then converts the string to the
  integer 200, which is none of 401, 404 and 429, and raises \<open>APIError\<close> with status 200.
  So the test payload is a success with the integer 200 and a failure with the string
  \<open>"200"\<close>, although the converted status is 200 in both.
\<close>

theorem cod_string_200_is_failure:
  "get_weather_by_city test_env test_settings (test_client (Body (JObj london)))
     ''London'' None ''metric'' ''en'' = Inr london_response
   \<and> map_of london_cod_str ''cod'' = Some (JStr ''200'')
   \<and> int_of_str (int_max_str_digits test_env) ''200'' = Some 200
   \<and> get_weather_by_city test_env test_settings (test_client (Body (JObj london_cod_str)))
         ''London'' None ''metric'' ''en'' = Inl (APIError (JInt 200) (JStr ''Unknown error''))"
  unfolding london_cod_str_def by code_simp

section \<open>The optional fields of the model\<close>

lemma format_km_10000: "format_km 10000 = Some ''10.0 km''"
  by code_simp

lemma london_validates: "new_WeatherResponse test_env london = Inr london_response"
  by code_simp

lemma london_formats:
  assumes "v = 0 \<or> v = 10000"
  shows "\<exists>out. format_weather_data test_env (london_response\<lparr>visibility := v\<rparr>) units = Inr out"
  using assms
  by (auto simp add: format_weather_data_def london_response_def test_env_def format_km_10000)

lemma missing_field_rejected: "map_of d k = None \<Longrightarrow> required f d k = None"
  by (simp add: required_def)

lemma missing_visibility_rejected:
  "map_of d ''visibility'' = None \<Longrightarrow> validate_WeatherResponse env d = None"
  by (simp add: validate_WeatherResponse_def missing_field_rejected split: bind_splits)

lemma format_visibility:
  assumes "format_weather_data env w units = Inr out"
  shows "lookup_path out [''weather'', ''visibility''] =
           map_option JStr (if visibility w = 0 then Some ''N/A'' else format_km (visibility w))"
  using assms
  by (auto simp add: format_weather_data_def Let_def
        split: option.splits list.splits sum.splits if_splits)

text \<open>
  C5, as amended. \<open>visibility\<close> is a required field: a payload without it is rejected
  with \<open>ValidationError\<close>, so no validated report lacks it. In the output of the
  formatter a visibility of 10000 is \<open>10.0 km\<close> and a visibility of 0 is \<open>N/A\<close>.
\<close>

theorem visibility_required_and_rendered:
  "(map_of d ''visibility'' = None \<longrightarrow> new_WeatherResponse env d = Inl (ValidationError d))
   \<and> (format_weather_data env w units = Inr out \<longrightarrow>
        (visibility w = 10000 \<longrightarrow>
           lookup_path out [''weather'', ''visibility''] = Some (JStr ''10.0 km''))
        \<and> (visibility w = 0 \<longrightarrow>
           lookup_path out [''weather'', ''visibility''] = Some (JStr ''N/A'')))"
  by (auto simp add: new_WeatherResponse_def missing_visibility_rejected format_km_10000
        dest!: format_visibility)

theorem visibility_required_and_rendered_witness:
  "new_WeatherResponse test_env london_no_visibility = Inl (ValidationError london_no_visibility)
   \<and> (\<exists>out. format_weather_data test_env london_response ''metric'' = Inr out
          \<and> lookup_path out [''weather'', ''visibility''] = Some (JStr ''10.0 km''))
   \<and> (\<exists>out. format_weather_data test_env (london_response\<lparr>visibility := 0\<rparr>) ''metric'' = Inr out
          \<and> lookup_path out [''weather'', ''visibility''] = Some (JStr ''N/A''))"
proof -
  have a: "map_of london_no_visibility ''visibility'' = None"
    by (simp add: london_no_visibility_def AList.delete_eq london_def)
  obtain o1 where o1: "format_weather_data test_env london_response ''metric'' = Inr o1"
    using london_formats [of 10000 "''metric''"] by (auto simp add: london_response_def)
  obtain o2 where
    o2: "format_weather_data test_env (london_response\<lparr>visibility := 0\<rparr>) ''metric'' = Inr o2"
    using london_formats [of 0 "''metric''"] by auto
  have v1: "visibility london_response = 10000"
    by (simp add: london_response_def)
  have v2: "visibility (london_response\<lparr>visibility := 0\<rparr>) = 0"
    by simp
  show ?thesis
    using visibility_required_and_rendered
            [of london_no_visibility test_env london_response "''metric''" o1]
          visibility_required_and_rendered
            [of london_no_visibility test_env "london_response\<lparr>visibility := 0\<rparr>" "''metric''" o2]
          a o1 o2 v1 v2
    by simp
qed

text \<open>
  The claim as stated fails on the test payload without its \<open>visibility\<close>: the client
  raises \<open>ValidationError\<close>, where the full payload gives a report.
\<close>

theorem payload_without_visibility_counterexample:
  "new_WeatherResponse test_env london = Inr london_response
   \<and> map_of london_no_visibility ''visibility'' = None
   \<and> get_weather_by_city test_env test_settings (test_client (Body (JObj london_no_visibility)))
        ''London'' None ''metric'' ''en'' = Inl (ValidationError london_no_visibility)"
  unfolding london_no_visibility_def by code_simp

lemma missing_deg_rejected:
  "map_of d ''wind'' = Some (JObj wd) \<Longrightarrow> map_of wd ''deg'' = None
     \<Longrightarrow> validate_WeatherResponse env d = None"
  by (simp add: validate_WeatherResponse_def validate_WindData_def required_def as_model_def
        split: bind_splits)

text \<open>
  C6, as amended. \<open>deg\<close> is a required field of the wind: a payload whose \<open>wind\<close> has no
  \<open>deg\<close> is rejected with \<open>ValidationError\<close>. The optional field of the wind is \<open>gust\<close>:
  a wind that validates and has no \<open>gust\<close> records it as \<open>None\<close>.
\<close>

theorem wind_deg_required_gust_optional:
  "(map_of d ''wind'' = Some (JObj wd) \<and> map_of wd ''deg'' = None \<longrightarrow>
      new_WeatherResponse env d = Inl (ValidationError d))
   \<and> (validate_WindData env wd = Some x \<and> map_of wd ''gust'' = None \<longrightarrow> gust x = None)"
  by (auto simp add: new_WeatherResponse_def missing_deg_rejected validate_WindData_def
        optional_def split: bind_splits)

theorem wind_deg_required_gust_optional_witness:
  "new_WeatherResponse test_env london_no_deg = Inl (ValidationError london_no_deg)
   \<and> (\<exists>x. validate_WindData test_env [(''speed'', JFloat ''3.6''), (''deg'', JInt 200)] = Some x
          \<and> gust x = None)"
proof -
  have a: "map_of london_no_deg ''wind'' = Some (JObj [(''speed'', JFloat ''3.6'')])
           \<and> map_of [(''speed'', JFloat ''3.6'')] ''deg'' = (None :: string json option)"
    by (simp add: london_no_deg_def london_def)
  have b: "validate_WindData test_env [(''speed'', JFloat ''3.6''), (''deg'', JInt 200)] =
             Some \<lparr>speed = ''3.6'', deg = 200, gust = None\<rparr>
           \<and> map_of [(''speed'', JFloat ''3.6''), (''deg'', JInt 200)] ''gust'' =
               (None :: string json option)"
    by code_simp
  show ?thesis
    using wind_deg_required_gust_optional
            [of london_no_deg "[(''speed'', JFloat ''3.6'')]" test_env]
          wind_deg_required_gust_optional
            [of _ "[(''speed'', JFloat ''3.6''), (''deg'', JInt 200)]" test_env
                "\<lparr>speed = ''3.6'', deg = 200, gust = None\<rparr>"]
          a b
    by simp
qed

text \<open>
  The claim as stated fails on the test payload whose wind is \<open>{"speed": 3.6}\<close>: the
  client raises \<open>ValidationError\<close>.
\<close>

theorem payload_without_deg_counterexample:
  "map_of london_no_deg ''wind'' = Some (JObj [(''speed'', JFloat ''3.6'')])
   \<and> get_weather_by_city test_env test_settings (test_client (Body (JObj london_no_deg)))
        ''London'' None ''metric'' ''en'' = Inl (ValidationError london_no_deg)"
  unfolding london_no_deg_def by code_simp

section \<open>The output of the formatter\<close>

lemma validated_has_no_extra:
  "new_WeatherResponse env d = Inr w \<Longrightarrow> pydantic_extra w = None"
  by (auto simp add: new_WeatherResponse_def validate_WeatherResponse_def
        split: option.splits bind_splits)

lemma format_rain_snow:
  assumes "format_weather_data env w units = Inr out"
  shows "lookup_path out [''weather'', ''rain''] = Some (json_opt id (getattr_extra w ''rain''))
       \<and> lookup_path out [''weather'', ''snow''] = Some (json_opt id (getattr_extra w ''snow''))"
  using assms
  by (auto simp add: format_weather_data_def Let_def
        split: option.splits list.splits sum.splits if_splits)

text \<open>
  Whatever the payload holds under \<open>rain\<close> and \<open>snow\<close>, the output of the formatter for
  the report validated from it has \<open>None\<close> there.
\<close>

lemma rain_of_validated_is_null:
  assumes "new_WeatherResponse env d = Inr w" and "format_weather_data env w units = Inr out"
  shows "lookup_path out [''weather'', ''rain''] = Some JNull
       \<and> lookup_path out [''weather'', ''snow''] = Some JNull"
  using format_rain_snow [OF assms(2)] validated_has_no_extra [OF assms(1)]
  by (simp add: getattr_extra_def json_opt_def)

text \<open>
  C7. \<open>rain\<close> and \<open>snow\<close> are not fields of \<open>WeatherResponse\<close>, and the model ignores the
  keys of the payload that are not fields, so \<open>hasattr(weather_data, 'rain')\<close> is false
  for every validated report. The test payload with the entry \<open>"rain": {"1h": 0.5}\<close>
  validates, and the formatted output has \<open>None\<close> under \<open>rain\<close>, not the entry.
\<close>

theorem payload_rain_is_dropped:
  "map_of london_rain ''rain'' = Some (JObj [(''1h'', JFloat ''0.5'')])
   \<and> (\<exists>w out. get_weather_by_city test_env test_settings (test_client (Body (JObj london_rain)))
                  ''London'' None ''metric'' ''en'' = Inr w
        \<and> format_weather_data test_env w ''metric'' = Inr out
        \<and> lookup_path out [''weather'', ''rain''] = Some JNull)"
proof -
  have a: "map_of london_rain ''rain'' = Some (JObj [(''1h'', JFloat ''0.5'')])"
    by (simp add: london_rain_def london_def)
  have b: "get_weather_by_city test_env test_settings (test_client (Body (JObj london_rain)))
             ''London'' None ''metric'' ''en'' = Inr london_response"
    unfolding london_rain_def by code_simp
  have c: "new_WeatherResponse test_env london_rain = Inr london_response"
    unfolding london_rain_def by code_simp
  obtain out where d: "format_weather_data test_env london_response ''metric'' = Inr out"
    using london_formats [of 10000 "''metric''"] by (auto simp add: london_response_def)
  from rain_of_validated_is_null [OF c d] a b d show ?thesis by blast
qed

lemma format_labels:
  assumes "format_weather_data env w units = Inr out"
  shows "lookup_path out [''weather'', ''temperature'', ''unit''] = Some (JStr (temp_unit units))
       \<and> lookup_path out [''weather'', ''wind'', ''speed''] =
           Some (JStr (float_str env (speed (wind w)) @ '' '' @ speed_unit units))"
  using assms
  by (auto simp add: format_weather_data_def Let_def
        split: option.splits list.splits sum.splits if_splits)

lemma format_returns:
  "(\<exists>out. format_weather_data env w units = Inr out) \<longleftrightarrow>
     (map_of (coord w) ''lat'' \<noteq> None \<and> map_of (coord w) ''lon'' \<noteq> None \<and> weather w \<noteq> []
      \<and> (visibility w = 0 \<or> format_km (visibility w) \<noteq> None)
      \<and> (\<exists>s. fromtimestamp_isoformat env (sunrise (sys w)) = Inr s)
      \<and> (\<exists>s. fromtimestamp_isoformat env (sunset (sys w)) = Inr s))"
  by (auto simp add: format_weather_data_def Let_def
        split: option.splits list.splits sum.splits if_splits)

text \<open>
  C8, as amended. The formatter returns an output exactly for the reports that have the
  coordinates \<open>lat\<close> and \<open>lon\<close> and a first weather condition, and whose visibility and
  sun times can be rendered. For every such report, whatever values it holds, the output
  for \<open>metric\<close> has the degree sign with \<open>C\<close> as temperature unit and a wind speed ending
  in \<open>m/s\<close>, and the output for \<open>imperial\<close> has the degree sign with \<open>F\<close> and \<open>mph\<close>. For
  any other report the formatter raises, with either units.
\<close>

theorem unit_labels:
  "(map_of (coord w) ''lat'' \<noteq> None \<and> map_of (coord w) ''lon'' \<noteq> None \<and> weather w \<noteq> []
      \<and> (visibility w = 0 \<or> format_km (visibility w) \<noteq> None)
      \<and> (\<exists>s. fromtimestamp_isoformat env (sunrise (sys w)) = Inr s)
      \<and> (\<exists>s. fromtimestamp_isoformat env (sunset (sys w)) = Inr s)
    \<longrightarrow>
      (\<exists>out. format_weather_data env w ''metric'' = Inr out
         \<and> lookup_path out [''weather'', ''temperature'', ''unit''] =
             Some (JStr [CHR 0xB0, CHR ''C''])
         \<and> lookup_path out [''weather'', ''wind'', ''speed''] =
             Some (JStr (float_str env (speed (wind w)) @ '' m/s'')))
      \<and> (\<exists>out. format_weather_data env w ''imperial'' = Inr out
         \<and> lookup_path out [''weather'', ''temperature'', ''unit''] =
             Some (JStr [CHR 0xB0, CHR ''F''])
         \<and> lookup_path out [''weather'', ''wind'', ''speed''] =
             Some (JStr (float_str env (speed (wind w)) @ '' mph''))))
   \<and> (\<not> (map_of (coord w) ''lat'' \<noteq> None \<and> map_of (coord w) ''lon'' \<noteq> None \<and> weather w \<noteq> []
          \<and> (visibility w = 0 \<or> format_km (visibility w) \<noteq> None)
          \<and> (\<exists>s. fromtimestamp_isoformat env (sunrise (sys w)) = Inr s)
          \<and> (\<exists>s. fromtimestamp_isoformat env (sunset (sys w)) = Inr s))
    \<longrightarrow> (\<exists>e. format_weather_data env w units = Inl e))"
proof -
  let ?dom = "map_of (coord w) ''lat'' \<noteq> None \<and> map_of (coord w) ''lon'' \<noteq> None \<and> weather w \<noteq> []
      \<and> (visibility w = 0 \<or> format_km (visibility w) \<noteq> None)
      \<and> (\<exists>s. fromtimestamp_isoformat env (sunrise (sys w)) = Inr s)
      \<and> (\<exists>s. fromtimestamp_isoformat env (sunset (sys w)) = Inr s)"
  have m: "\<exists>out. format_weather_data env w ''metric'' = Inr out
         \<and> lookup_path out [''weather'', ''temperature'', ''unit''] =
             Some (JStr [CHR 0xB0, CHR ''C''])
         \<and> lookup_path out [''weather'', ''wind'', ''speed''] =
             Some (JStr (float_str env (speed (wind w)) @ '' m/s''))" if ?dom
  proof -
    from that obtain out where o: "format_weather_data env w ''metric'' = Inr out"
      using format_returns [of env w "''metric''"] by blast
    from format_labels [OF o] o show ?thesis
      by (auto simp add: temp_unit_def speed_unit_def)
  qed
  have i: "\<exists>out. format_weather_data env w ''imperial'' = Inr out
         \<and> lookup_path out [''weather'', ''temperature'', ''unit''] =
             Some (JStr [CHR 0xB0, CHR ''F''])
         \<and> lookup_path out [''weather'', ''wind'', ''speed''] =
             Some (JStr (float_str env (speed (wind w)) @ '' mph''))" if ?dom
  proof -
    from that obtain out where o: "format_weather_data env w ''imperial'' = Inr out"
      using format_returns [of env w "''imperial''"] by blast
    from format_labels [OF o] o show ?thesis
      by (auto simp add: temp_unit_def speed_unit_def)
  qed
  have r: "\<exists>e. format_weather_data env w units = Inl e" if "\<not> ?dom"
  proof (cases "format_weather_data env w units")
    case (Inl e)
    then show ?thesis by blast
  next
    case (Inr out)
    then have ?dom using format_returns [of env w units] by blast
    with that show ?thesis by blast
  qed
  from m i r show ?thesis by blast
qed

theorem unit_labels_witness:
  "(\<exists>out. format_weather_data test_env london_response ''metric'' = Inr out
      \<and> lookup_path out [''weather'', ''temperature'', ''unit''] = Some (JStr [CHR 0xB0, CHR ''C''])
      \<and> lookup_path out [''weather'', ''wind'', ''speed''] = Some (JStr ''3.6 m/s''))
   \<and> (\<exists>out. format_weather_data test_env london_response ''imperial'' = Inr out
      \<and> lookup_path out [''weather'', ''temperature'', ''unit''] = Some (JStr [CHR 0xB0, CHR ''F''])
      \<and> lookup_path out [''weather'', ''wind'', ''speed''] = Some (JStr ''3.6 mph''))
   \<and> (\<exists>e. format_weather_data test_env (london_response\<lparr>coord := []\<rparr>) ''metric'' = Inl e)"
proof -
  have d: "map_of (coord london_response) ''lat'' \<noteq> None
      \<and> map_of (coord london_response) ''lon'' \<noteq> None \<and> weather london_response \<noteq> []
      \<and> (visibility london_response = 0 \<or> format_km (visibility london_response) \<noteq> None)
      \<and> (\<exists>s. fromtimestamp_isoformat test_env (sunrise (sys london_response)) = Inr s)
      \<and> (\<exists>s. fromtimestamp_isoformat test_env (sunset (sys london_response)) = Inr s)"
    by (simp add: london_response_def test_env_def format_km_10000)
  have n: "map_of (coord (london_response\<lparr>coord := []\<rparr>)) ''lat'' = None"
    by simp
  have s: "float_str test_env (speed (wind london_response)) = ''3.6''"
    by (simp add: test_env_def london_response_def)
  have t1: "(\<exists>out. format_weather_data test_env london_response ''metric'' = Inr out
         \<and> lookup_path out [''weather'', ''temperature'', ''unit''] =
             Some (JStr [CHR 0xB0, CHR ''C''])
         \<and> lookup_path out [''weather'', ''wind'', ''speed''] =
             Some (JStr (float_str test_env (speed (wind london_response)) @ '' m/s'')))
      \<and> (\<exists>out. format_weather_data test_env london_response ''imperial'' = Inr out
         \<and> lookup_path out [''weather'', ''temperature'', ''unit''] =
             Some (JStr [CHR 0xB0, CHR ''F''])
         \<and> lookup_path out [''weather'', ''wind'', ''speed''] =
             Some (JStr (float_str test_env (speed (wind london_response)) @ '' mph'')))"
    using unit_labels [of london_response test_env "''metric''"] d by blast
  have t2: "\<exists>e. format_weather_data test_env (london_response\<lparr>coord := []\<rparr>) ''metric'' = Inl e"
    using unit_labels [of "london_response\<lparr>coord := []\<rparr>" test_env "''metric''"] n by blast
  from t1 t2 show ?thesis
    unfolding s by simp
qed

text \<open>
  The claim as stated fails on the test payload with an empty list of conditions: it
  validates, and the formatter raises \<open>IndexError\<close> for the report, with either units,
  so that there is no label.
\<close>

theorem empty_weather_counterexample:
  "get_weather_by_city test_env test_settings (test_client (Body (JObj london_empty_weather)))
     ''London'' None ''metric'' ''en'' = Inr (london_response\<lparr>weather := []\<rparr>)
   \<and> format_weather_data test_env (london_response\<lparr>weather := []\<rparr>) ''metric'' = Inl IndexError
   \<and> format_weather_data test_env (london_response\<lparr>weather := []\<rparr>) ''imperial'' = Inl IndexError"
  unfolding london_empty_weather_def by code_simp

section \<open>The query term\<close>

lemma split_not_Nil: "split c s \<noteq> []"
  by (induction s) (auto split: list.splits)

lemma split_takeWhile:
  "split c s = takeWhile (\<lambda>x. x \<noteq> c) s #
     (case dropWhile (\<lambda>x. x \<noteq> c) s of [] \<Rightarrow> [] | _ # r \<Rightarrow> split c r)"
  by (induction s) (auto split: list.splits)

lemma split_append_sep:
  "c \<in> set s \<Longrightarrow> split c (s @ c # extra) = split c s @ split c extra"
proof (induction s)
  case Nil
  then show ?case by simp
next
  case (Cons x s)
  show ?case
  proof (cases "x = c")
    case True
    then show ?thesis
    proof (cases "c \<in> set s")
      case True
      with Cons \<open>x = c\<close> show ?thesis by simp
    next
      case False
      have "split c (s @ c # extra) = s # split c extra"
        using False by (induction s) (auto split: list.splits)
      moreover have "split c s = [s]"
        using False by (induction s) (auto split: list.splits)
      ultimately show ?thesis using \<open>x = c\<close> by simp
    qed
  next
    case False
    with Cons have "split c (s @ c # extra) = split c s @ split c extra" by simp
    then show ?thesis
      using False split_not_Nil [of c s] by (auto split: list.splits)
  qed
qed

lemma split_two:
  assumes "c \<in> set s"
  shows "\<exists>rest. split c s = takeWhile (\<lambda>x. x \<noteq> c) s #
           takeWhile (\<lambda>x. x \<noteq> c) (tl (dropWhile (\<lambda>x. x \<noteq> c) s)) # rest"
proof -
  from assms obtain r where r: "dropWhile (\<lambda>x. x \<noteq> c) s = c # r"
    by (metis (mono_tags, lifting) dropWhile_eq_Nil_conv hd_dropWhile list.collapse)
  have "split c s = takeWhile (\<lambda>x. x \<noteq> c) s # split c r"
    using split_takeWhile [of c s] r by simp
  moreover have "\<exists>rest. split c r = takeWhile (\<lambda>x. x \<noteq> c) r # rest"
    using split_takeWhile [of c r] by simp
  ultimately show ?thesis using r by auto
qed

lemma location_with_comma:
  assumes "CHR '','' \<in> set s"
  shows "location_city_country s c =
           Some (strip (takeWhile (\<lambda>x. x \<noteq> CHR '','') s),
                Some (strip (takeWhile (\<lambda>x. x \<noteq> CHR '','')
                               (tl (dropWhile (\<lambda>x. x \<noteq> CHR '','') s)))))"
  using split_two [OF assms] assms by (auto simp add: location_city_country_def)

text \<open>
  C9, as amended. The \<open>q\<close> parameter of the request is the city, a comma and the country
  code when the country code is a string that is not empty, and the city alone when the
  country code is \<open>None\<close> or the empty string. The location \<open>London,uk\<close> gives the city
  \<open>London\<close> and the country \<open>uk\<close>, hence the term \<open>London,uk\<close>; the location \<open>London\<close>
  without country option gives the term \<open>London\<close>.
\<close>

theorem query_term_of_city_and_country:
  "map_of (request_params self city country_code units lang) ''q'' =
     Some (case country_code of
             None \<Rightarrow> city
           | Some cc \<Rightarrow> if cc = [] then city else city @ '','' @ cc)
   \<and> location_city_country ''London,uk'' country = Some (''London'', Some ''uk'')
   \<and> map_of (request_params self ''London'' (Some ''uk'') units lang) ''q'' = Some ''London,uk''
   \<and> location_city_country ''London'' None = Some (''London'', None)
   \<and> map_of (request_params self ''London'' None units lang) ''q'' = Some ''London''"
  by (simp add: request_params_def query_term_def truthy_def location_city_country_def
        strip_def strip_by_def is_space_def split: option.splits)

text \<open>
  The claim as stated fails for the empty country code, which the command passes on for
  the location \<open>London,\<close>: the term is \<open>London\<close>, not \<open>London,\<close>.
\<close>

theorem empty_country_code_counterexample:
  "location_city_country ''London,'' None = Some (''London'', Some [])
   \<and> query_term ''London'' (Some []) = ''London''
   \<and> query_term ''London'' (Some []) \<noteq> ''London'' @ '','' @ []"
  by (simp add: query_term_def truthy_def location_city_country_def strip_def strip_by_def
        is_space_def)

text \<open>
  C10. When the location contains a comma, the city is the stripped text before the
  first comma and the country code is the stripped text between the first comma and the
  second (or the end). The \<open>--country\<close> option does not enter the result, and neither
  does anything after the second comma: more segments appended to the location leave
  the result as it is.
\<close>

theorem embedded_country_overrides_option:
  assumes "CHR '','' \<in> set location"
  shows "location_city_country location country =
           Some (strip (takeWhile (\<lambda>x. x \<noteq> CHR '','') location),
                 Some (strip (takeWhile (\<lambda>x. x \<noteq> CHR '','')
                                (tl (dropWhile (\<lambda>x. x \<noteq> CHR '','') location)))))
       \<and> location_city_country (location @ '','' @ extra) country' =
           location_city_country location country"
proof -
  obtain p q rest where pq: "split CHR '','' location = p # q # rest"
    using split_two [OF assms] by blast
  have "split CHR '','' (location @ '','' @ extra) = p # q # rest @ split CHR '','' extra"
    using split_append_sep [OF assms, of extra] pq by simp
  then have "location_city_country (location @ '','' @ extra) country' =
               location_city_country location country"
    using pq assms by (simp add: location_city_country_def)
  then show ?thesis using location_with_comma [OF assms] by simp
qed

theorem embedded_country_overrides_option_witness:
  "location_city_country '' New York , us'' (Some ''gb'') = Some (''New York'', Some ''us'')
   \<and> location_city_country '' New York , us,ny,x'' None = Some (''New York'', Some ''us'')"
proof -
  have a: "CHR '','' \<in> set '' New York , us''" by simp
  show ?thesis
    using embedded_country_overrides_option [OF a, of "Some ''gb''" "''ny,x''" None]
    by (simp add: strip_def strip_by_def is_space_def)
qed

end
